theory Spec2Isabelle
  imports Main "HOL-Library.Sublist"
begin

section \<open>Application Default Credentials: the resolution chain of go/sgauth/default.go\<close>

text \<open>
  The theory embeds the functions of \<^verbatim>\<open>go/sgauth/default.go\<close>:
  \<^verbatim>\<open>findJSONCredentials\<close>, \<^verbatim>\<open>applicationDefaultCredentials\<close>,
  \<^verbatim>\<open>readCredentialsFile\<close>, \<^verbatim>\<open>credentialsFromJSON\<close>, \<^verbatim>\<open>wellKnownFile\<close> and
  \<^verbatim>\<open>guessUnixHomeDir\<close>.

  Go strings and byte slices are \<^typ>\<open>string\<close>. A Go function returning
  \<^verbatim>\<open>(*Credentials, error)\<close> returns a pair of options here (\<open>None\<close> is \<^verbatim>\<open>nil\<close>), so
  that "a non-nil pointer together with a non-nil error" is a value the model could
  produce. Everything the functions read from outside (environment variables, files,
  the platform, the process-wide App Engine variables, the metadata service) is a
  field of the record \<open>world\<close>; every such read is logged as an \<open>event\<close>, in the order
  the code performs it.
\<close>

subsection \<open>Errors\<close>

text \<open>The system-call errors a file read can fail with (a few of \<^verbatim>\<open>syscall.Errno\<close>).\<close>

datatype errno = ENOENT | EACCES | EISDIR | EIO

fun errno_text :: "errno \<Rightarrow> string" where
  "errno_text ENOENT = ''no such file or directory''"
| "errno_text EACCES = ''permission denied''"
| "errno_text EISDIR = ''is a directory''"
| "errno_text EIO = ''input/output error''"

text \<open>
  Go's \<^verbatim>\<open>error\<close> values, as far as this file can tell them apart:
  \<^item> \<open>PathError op path e\<close> is \<^verbatim>\<open>*os.PathError\<close>, what \<^verbatim>\<open>ioutil.ReadFile\<close> fails with;
  \<^item> \<open>JSONError msg\<close> is an error of \<^verbatim>\<open>json.Unmarshal\<close> with its message;
  \<^item> \<open>ParseError kind msg\<close> is the structural error of a credentials document whose
    discriminator \<open>kind\<close> is missing (empty) or unknown;
  \<^item> \<open>Canceled\<close> is \<^verbatim>\<open>context.Canceled\<close>;
  \<^item> \<open>ErrorString msg\<close> is any other error, known by its message, as \<^verbatim>\<open>fmt.Errorf\<close>
    builds.
\<close>

datatype err =
    PathError string string errno
  | JSONError string
  | ParseError string string
  | Canceled
  | ErrorString string

text \<open>\<^verbatim>\<open>err.Error()\<close>, which \<^verbatim>\<open>fmt.Errorf\<close> prints for \<^verbatim>\<open>%v\<close>.\<close>

fun Error :: "err \<Rightarrow> string" where
  "Error (PathError op path e) = op @ '' '' @ path @ '': '' @ errno_text e"
| "Error (JSONError msg) = msg"
| "Error (ParseError kind msg) = msg"
| "Error Canceled = ''context canceled''"
| "Error (ErrorString msg) = msg"

text \<open>
  \<^verbatim>\<open>os.IsNotExist\<close>: true of a path error whose underlying error is \<^verbatim>\<open>ENOENT\<close>, false
  of an error made by \<^verbatim>\<open>fmt.Errorf\<close>, \<^verbatim>\<open>errors.New\<close> or \<^verbatim>\<open>encoding/json\<close>.
\<close>

fun IsNotExist :: "err \<Rightarrow> bool" where
  "IsNotExist (PathError op path e) = (e = ENOENT)"
| "IsNotExist (JSONError msg) = False"
| "IsNotExist (ParseError kind msg) = False"
| "IsNotExist Canceled = False"
| "IsNotExist (ErrorString msg) = False"

subsection \<open>The data the code handles\<close>

text \<open>\<^verbatim>\<open>context.Context\<close>: what matters of it here is whether it has been cancelled.\<close>

record Context =
  cancelled :: bool

text \<open>
  \<^verbatim>\<open>Settings\<close>, with the fields default.go reads. The consent callback is a nil-able
  function value; the chain only hands it on, so its type is a parameter. The Go
  functions take a pointer to the settings; the model takes the value, that is, a
  pointer that is not nil.
\<close>

record 'h Settings =
  Scope :: string
  Audience :: string
  CredentialsJSON :: string
  OAuthFlowHandler :: "'h option"
  State :: string

text \<open>\<^verbatim>\<open>credentials.Credentials\<close>, with the three fields default.go sets.\<close>

record 'ts Credentials =
  ProjectID :: string
  TokenSource :: 'ts
  JSON :: string

text \<open>\<^verbatim>\<open>user.User\<close> of os/user.\<close>

record User =
  Uid :: string
  Gid :: string
  Username :: string
  Name :: string
  HomeDir :: string

text \<open>What \<^verbatim>\<open>ioutil.ReadFile\<close> does at a path: the contents, or a failure of the open or
  of the read.\<close>

datatype file_result = Contents string | OpenFails errno | ReadFails errno

text \<open>
  The ambient inputs of a run. \<open>Getenv\<close> is \<^verbatim>\<open>os.Getenv\<close> (the empty string for an
  unset variable), \<open>files\<close> the filesystem as \<^verbatim>\<open>ioutil.ReadFile\<close> sees it, \<open>GOOS\<close> is
  \<^verbatim>\<open>runtime.GOOS\<close>, \<open>Join\<close> the platform's \<^verbatim>\<open>filepath.Join\<close>, \<open>userCurrent\<close> the
  result of \<^verbatim>\<open>user.Current()\<close>. \<open>appengineTokenFunc\<close>, \<open>appengineAppIDFunc\<close> and
  \<open>appengineFlex\<close> are the package's process-wide variables (declared outside
  default.go; the two hooks are nil-able function values), \<open>OnGCE\<close> and
  \<open>metadataProjectID\<close> the results of \<^verbatim>\<open>metadata.OnGCE()\<close> and
  \<^verbatim>\<open>metadata.ProjectID()\<close>.
\<close>

record 'tf world =
  Getenv :: "string \<Rightarrow> string"
  files :: "string \<Rightarrow> file_result"
  GOOS :: string
  Join :: "string list \<Rightarrow> string"
  userCurrent :: "err + User"
  appengineTokenFunc :: "'tf option"
  appengineAppIDFunc :: "(Context \<Rightarrow> string) option"
  appengineFlex :: bool
  OnGCE :: bool
  metadataProjectID :: "string \<times> err option"

text \<open>The reads of ambient inputs, logged in the order the code performs them.\<close>

datatype event =
    EvGetenv string
  | EvReadFile string
  | EvUserCurrent
  | EvTokenFuncCheck
  | EvAppIDFunc
  | EvAppEngineTokenSource
  | EvOnGCE
  | EvProjectID

text \<open>What a call does: it returns the Go pair, or it panics.\<close>

datatype 'a outcome = Returns "'a option" "err option" | Panics string

subsection \<open>The credentials document\<close>

text \<open>
  Modelled from the spec: \<^verbatim>\<open>credentials.File\<close>, the target of \<^verbatim>\<open>json.Unmarshal\<close>, is
  declared outside default.go. The spec describes the document as a JSON object with
  at least the fields \<^verbatim>\<open>type\<close> and \<^verbatim>\<open>project_id\<close> and kind-specific
  fields: a service account bears a private key and a client email, an authorized
  user a refresh token and a client id and secret. \<open>document\<close> is the decoded JSON
  object, each field present or absent; \<open>File\<close> is the Go struct.
\<close>

record document =
  doc_type :: "string option"
  doc_project_id :: "string option"
  doc_client_email :: "string option"
  doc_private_key :: "string option"
  doc_client_id :: "string option"
  doc_client_secret :: "string option"
  doc_refresh_token :: "string option"

record File =
  Type :: string
  File_ProjectID :: string
  ClientEmail :: string
  PrivateKey :: string
  ClientID :: string
  ClientSecret :: string
  RefreshToken :: string

text \<open>A string field of a Go struct keeps its zero value, the empty string, when the
  document does not have the field.\<close>

definition field_value :: "string option \<Rightarrow> string" where
  "field_value v = (case v of None \<Rightarrow> [] | Some s \<Rightarrow> s)"

definition File_of_document :: "document \<Rightarrow> File" where
  "File_of_document d =
     \<lparr>Type = field_value (doc_type d),
      File_ProjectID = field_value (doc_project_id d),
      ClientEmail = field_value (doc_client_email d),
      PrivateKey = field_value (doc_private_key d),
      ClientID = field_value (doc_client_id d),
      ClientSecret = field_value (doc_client_secret d),
      RefreshToken = field_value (doc_refresh_token d)\<rparr>"

text \<open>
  The collaborators of the chain that are not in default.go, as parameters:
  \<^item> \<open>decode\<close>: the JSON syntax of \<^verbatim>\<open>encoding/json\<close>, from bytes to the fields of the
    document, or the message of the decoding error;
  \<^item> \<open>serviceAccountKey\<close>, \<open>userCredentialsKey\<close>: the two known values of the
    discriminator;
  \<^item> \<open>serviceAccountSource\<close>, \<open>userSource\<close>: the constructors of the token source of
    each kind;
  \<^item> \<open>kindErrorText\<close>: the message of the error for a missing or unknown discriminator;
  \<^item> \<open>AppEngineTokenSource\<close>, \<open>ComputeTokenSource\<close>: the package's constructors of the
    App Engine and of the metadata-server token source.
\<close>

record ('ts, 'h) deps =
  decode :: "string \<Rightarrow> string + document"
  serviceAccountKey :: string
  userCredentialsKey :: string
  serviceAccountSource :: "Context \<Rightarrow> File \<Rightarrow> string list \<Rightarrow> err + 'ts"
  userSource :: "Context \<Rightarrow> File \<Rightarrow> string list \<Rightarrow> 'h option \<Rightarrow> string \<Rightarrow> err + 'ts"
  kindErrorText :: "string \<Rightarrow> string"
  AppEngineTokenSource :: "Context \<Rightarrow> string \<Rightarrow> 'ts"
  ComputeTokenSource :: "string \<Rightarrow> 'ts"

text \<open>\<^verbatim>\<open>json.Unmarshal(jsonData, &f)\<close> for \<^verbatim>\<open>f\<close> a \<^verbatim>\<open>credentials.File\<close>.\<close>

definition Unmarshal :: "('ts, 'h) deps \<Rightarrow> string \<Rightarrow> err + File" where
  "Unmarshal P jsonData =
     (case decode P jsonData of
        Inl msg \<Rightarrow> Inl (JSONError msg)
      | Inr d \<Rightarrow> Inr (File_of_document d))"

text \<open>
  Modelled from the spec: the method \<^verbatim>\<open>TokenSource\<close> of \<^verbatim>\<open>credentials.File\<close> is not in
  default.go. The spec has it dispatch on the kind of the document, to a token source
  for a service account or for an authorized user, and has a missing or unknown
  discriminator be a parse error, not a silent default.
\<close>

definition File_TokenSource ::
  "('ts, 'h) deps \<Rightarrow> Context \<Rightarrow> File \<Rightarrow> string list \<Rightarrow> 'h option \<Rightarrow> string \<Rightarrow> err + 'ts" where
  "File_TokenSource P ctx f scopes handler state =
     (if Type f = [] then Inl (ParseError [] (kindErrorText P []))
      else if Type f = serviceAccountKey P then serviceAccountSource P ctx f scopes
      else if Type f = userCredentialsKey P then userSource P ctx f scopes handler state
      else Inl (ParseError (Type f) (kindErrorText P (Type f))))"

subsection \<open>The functions of default.go\<close>

text \<open>\<^verbatim>\<open>strings.Split(s, " ")\<close>: the pieces of \<open>s\<close> between the separators; one empty
  piece for the empty string.\<close>

fun Split :: "string \<Rightarrow> char \<Rightarrow> string list" where
  "Split [] sep = [[]]"
| "Split (c # cs) sep =
     (if c = sep then [] # Split cs sep
      else (case Split cs sep of
              [] \<Rightarrow> [[c]]
            | piece # pieces \<Rightarrow> (c # piece) # pieces))"

definition credentialsFromJSON ::
  "('ts, 'h) deps \<Rightarrow> Context \<Rightarrow> string \<Rightarrow> string list \<Rightarrow> 'h option \<Rightarrow> string
     \<Rightarrow> 'ts Credentials option \<times> err option" where
  "credentialsFromJSON P ctx jsonData scopes handler state =
     (case Unmarshal P jsonData of
        Inl e \<Rightarrow> (None, Some e)
      | Inr f \<Rightarrow>
          (case File_TokenSource P ctx f scopes handler state of
             Inl e \<Rightarrow> (None, Some e)
           | Inr ts \<Rightarrow>
               (Some \<lparr>ProjectID = File_ProjectID f, TokenSource = ts, JSON = jsonData\<rparr>,
                None)))"

text \<open>\<^verbatim>\<open>ioutil.ReadFile(filename)\<close>.\<close>

definition ReadFile :: "'tf world \<Rightarrow> string \<Rightarrow> err + string" where
  "ReadFile w filename =
     (case files w filename of
        Contents b \<Rightarrow> Inr b
      | OpenFails e \<Rightarrow> Inl (PathError ''open'' filename e)
      | ReadFails e \<Rightarrow> Inl (PathError ''read'' filename e))"

definition readCredentialsFile ::
  "('ts, 'h) deps \<Rightarrow> 'tf world \<Rightarrow> Context \<Rightarrow> string \<Rightarrow> 'h Settings
     \<Rightarrow> event list \<times> 'ts Credentials option \<times> err option" where
  "readCredentialsFile P w ctx filename settings =
     (case ReadFile w filename of
        Inl e \<Rightarrow> ([EvReadFile filename], None, Some e)
      | Inr b \<Rightarrow>
          ([EvReadFile filename],
           credentialsFromJSON P ctx b (Split (Scope settings) CHR '' '')
             (OAuthFlowHandler settings) (State settings)))"

definition guessUnixHomeDir :: "'tf world \<Rightarrow> event list \<times> string" where
  "guessUnixHomeDir w =
     (let v = Getenv w ''HOME'' in
      if v \<noteq> [] then ([EvGetenv ''HOME''], v)
      else (case userCurrent w of
              Inr u \<Rightarrow> ([EvGetenv ''HOME'', EvUserCurrent], HomeDir u)
            | Inl e \<Rightarrow> ([EvGetenv ''HOME'', EvUserCurrent], [])))"

definition wellKnownFile :: "'tf world \<Rightarrow> event list \<times> string" where
  "wellKnownFile w =
     (let f = ''application_default_credentials.json'' in
      if GOOS w = ''windows''
      then ([EvGetenv ''APPDATA''], Join w [Getenv w ''APPDATA'', ''gcloud'', f])
      else (case guessUnixHomeDir w of
              (t, home) \<Rightarrow> (t, Join w [home, ''.config'', ''gcloud'', f])))"

definition envVar :: string where
  "envVar = ''GOOGLE_APPLICATION_CREDENTIALS''"

definition url :: string where
  "url = ''https://developers.google.com/accounts/docs/application-default-credentials''"

definition applicationDefaultCredentials ::
  "('ts, 'h) deps \<Rightarrow> 'tf world \<Rightarrow> Context \<Rightarrow> 'h Settings
     \<Rightarrow> event list \<times> 'ts Credentials outcome" where
  "applicationDefaultCredentials P w ctx settings =
     (if Getenv w envVar \<noteq> [] then
        (case readCredentialsFile P w ctx (Getenv w envVar) settings of
           (t, creds, err) \<Rightarrow>
             (case err of
                Some e \<Rightarrow>
                  (EvGetenv envVar # t,
                   Returns None (Some (ErrorString
                     (''google: error getting credentials using '' @ envVar
                        @ '' environment variable: '' @ Error e))))
              | None \<Rightarrow> (EvGetenv envVar # t, Returns creds None)))
      else
        (case wellKnownFile w of
           (t1, filename) \<Rightarrow>
        (case readCredentialsFile P w ctx filename settings of
           (t2, creds, err) \<Rightarrow>
             (case err of
                None \<Rightarrow> (EvGetenv envVar # t1 @ t2, Returns creds None)
              | Some e \<Rightarrow>
                  if \<not> IsNotExist e then
                    (EvGetenv envVar # t1 @ t2,
                     Returns None (Some (ErrorString
                       (''google: error getting credentials using well-known file (''
                          @ filename @ ''): '' @ Error e))))
                  else if appengineTokenFunc w \<noteq> None \<and> \<not> appengineFlex w then
                    (case appengineAppIDFunc w of
                       None \<Rightarrow>
                         (EvGetenv envVar # t1 @ t2 @ [EvTokenFuncCheck, EvAppIDFunc],
                          Panics ''invalid memory address or nil pointer dereference'')
                     | Some appID \<Rightarrow>
                         (EvGetenv envVar # t1 @ t2
                            @ [EvTokenFuncCheck, EvAppIDFunc, EvAppEngineTokenSource],
                          Returns
                            (Some \<lparr>ProjectID = appID ctx,
                                   TokenSource = AppEngineTokenSource P ctx (Scope settings),
                                   JSON = []\<rparr>)
                            None))
                  else if OnGCE w then
                    (EvGetenv envVar # t1 @ t2 @ [EvTokenFuncCheck, EvOnGCE, EvProjectID],
                     Returns
                       (Some \<lparr>ProjectID = fst (metadataProjectID w),
                              TokenSource = ComputeTokenSource P [],
                              JSON = []\<rparr>)
                       None)
                  else
                    (EvGetenv envVar # t1 @ t2 @ [EvTokenFuncCheck, EvOnGCE],
                     Returns None (Some (ErrorString
                       (''google: could not find default credentials. See '' @ url
                          @ '' for more information.''))))))))"

definition findJSONCredentials ::
  "('ts, 'h) deps \<Rightarrow> 'tf world \<Rightarrow> Context \<Rightarrow> 'h Settings
     \<Rightarrow> event list \<times> 'ts Credentials outcome" where
  "findJSONCredentials P w ctx settings =
     (if CredentialsJSON settings \<noteq> [] then
        (case credentialsFromJSON P ctx (CredentialsJSON settings)
                (Split (Scope settings) CHR '' '') (OAuthFlowHandler settings)
                (State settings) of
           (creds, err) \<Rightarrow> ([], Returns creds err))
      else applicationDefaultCredentials P w ctx settings)"

subsection \<open>Concrete configurations\<close>

text \<open>
  The scenario of the spec: a service-account document with project id \<open>p1\<close>, and
  collaborators that decode exactly this document.
\<close>

definition example_json :: string where
  \<open>example_json =
     ''{"type":"service_account","project_id":"p1","client_email":"a@b","private_key":"..."}''\<close>

definition example_document :: document where
  "example_document =
     \<lparr>doc_type = Some ''service_account'', doc_project_id = Some ''p1'',
      doc_client_email = Some ''a@b'', doc_private_key = Some ''...'',
      doc_client_id = None, doc_client_secret = None, doc_refresh_token = None\<rparr>"

text \<open>A document without the \<^verbatim>\<open>type\<close> field.\<close>

definition untyped_json :: string where
  \<open>untyped_json = ''{"project_id":"p1"}''\<close>

definition untyped_document :: document where
  "untyped_document =
     \<lparr>doc_type = None, doc_project_id = Some ''p1'',
      doc_client_email = None, doc_private_key = None,
      doc_client_id = None, doc_client_secret = None, doc_refresh_token = None\<rparr>"

text \<open>A document of a kind that is neither of the two known ones.\<close>

definition foreign_json :: string where
  \<open>foreign_json = ''{"type":"external_account","project_id":"p1"}''\<close>

definition foreign_document :: document where
  "foreign_document =
     \<lparr>doc_type = Some ''external_account'', doc_project_id = Some ''p1'',
      doc_client_email = None, doc_private_key = None,
      doc_client_id = None, doc_client_secret = None, doc_refresh_token = None\<rparr>"

definition example_deps :: "(string, unit) deps" where
  "example_deps =
     \<lparr>decode = (\<lambda>b. if b = example_json then Inr example_document
                     else if b = untyped_json then Inr untyped_document
                     else if b = foreign_json then Inr foreign_document
                     else Inl ''unexpected end of JSON input''),
      serviceAccountKey = ''service_account'',
      userCredentialsKey = ''authorized_user'',
      serviceAccountSource = (\<lambda>ctx f scopes. Inr (''jwt '' @ ClientEmail f)),
      userSource = (\<lambda>ctx f scopes handler state. Inr (''refresh '' @ ClientID f)),
      kindErrorText = (\<lambda>kind. ''bad credential type: '' @ kind),
      AppEngineTokenSource = (\<lambda>ctx scope. ''appengine '' @ scope),
      ComputeTokenSource = (\<lambda>account. ''compute '' @ account)\<rparr>"

definition example_settings :: "unit Settings" where
  "example_settings =
     \<lparr>Scope = ''scope-a'', Audience = [], CredentialsJSON = [],
      OAuthFlowHandler = None, State = []\<rparr>"

text \<open>A join of the non-empty elements with a slash, enough of \<^verbatim>\<open>filepath.Join\<close> for
  the paths below.\<close>

definition example_Join :: "string list \<Rightarrow> string" where
  "example_Join elems =
     foldr (\<lambda>a b. if b = [] then a else a @ ''/'' @ b) (filter (\<lambda>a. a \<noteq> []) elems) []"

text \<open>
  A Linux machine with \<^verbatim>\<open>HOME\<close> set, no file on it, outside App Engine and
  Compute Engine, and \<^verbatim>\<open>GOOGLE_APPLICATION_CREDENTIALS\<close> unset.
\<close>

definition bare_world :: "unit world" where
  "bare_world =
     \<lparr>Getenv = (\<lambda>k. if k = ''HOME'' then ''/home/u'' else []),
      files = (\<lambda>p. OpenFails ENOENT),
      GOOS = ''linux'',
      Join = example_Join,
      userCurrent = Inl (ErrorString ''user: Current not implemented on linux/amd64''),
      appengineTokenFunc = None,
      appengineAppIDFunc = None,
      appengineFlex = False,
      OnGCE = False,
      metadataProjectID = ([], Some (ErrorString ''metadata: not on GCE''))\<rparr>"

definition well_known :: string where
  "well_known = ''/home/u/.config/gcloud/application_default_credentials.json''"

text \<open>The same machine with \<^verbatim>\<open>GOOGLE_APPLICATION_CREDENTIALS\<close> pointing at a file that
  does not exist.\<close>

definition env_world :: "unit world" where
  "env_world =
     bare_world\<lparr>Getenv := (\<lambda>k. if k = envVar then ''/nonexistent/path''
                               else if k = ''HOME'' then ''/home/u'' else [])\<rparr>"

text \<open>The same machine with a well-known file that cannot be opened.\<close>

definition locked_world :: "unit world" where
  "locked_world =
     bare_world\<lparr>files := (\<lambda>p. if p = well_known then OpenFails EACCES
                              else OpenFails ENOENT)\<rparr>"

text \<open>A Compute Engine machine: the metadata service answers.\<close>

definition gce_world :: "unit world" where
  "gce_world = bare_world\<lparr>OnGCE := True, metadataProjectID := (''p-gce'', None)\<rparr>"

text \<open>The App Engine flexible environment on such a machine: both hooks are set, and so
  is the flex flag.\<close>

definition flex_world :: "unit world" where
  "flex_world =
     gce_world\<lparr>appengineTokenFunc := Some (),
                appengineAppIDFunc := Some (\<lambda>ctx. ''app-1''),
                appengineFlex := True\<rparr>"

text \<open>A process whose token hook is set and whose app-id hook is nil.\<close>

definition half_hooked_world :: "unit world" where
  "half_hooked_world = bare_world\<lparr>appengineTokenFunc := Some ()\<rparr>"

text \<open>The same machine with a well-known file that is not a JSON document.\<close>

definition garbled_world :: "unit world" where
  "garbled_world =
     bare_world\<lparr>files := (\<lambda>p. if p = well_known then Contents ''{''
                              else OpenFails ENOENT)\<rparr>"

text \<open>App Engine standard on the bare machine: both hooks are set, the flex flag is not.\<close>

definition appengine_world :: "unit world" where
  "appengine_world =
     bare_world\<lparr>appengineTokenFunc := Some (),
                 appengineAppIDFunc := Some (\<lambda>ctx. ''app-1'')\<rparr>"

text \<open>The bare machine with the service-account document of the spec's scenario as its
  well-known file.\<close>

definition configured_world :: "unit world" where
  "configured_world =
     bare_world\<lparr>files := (\<lambda>p. if p = well_known then Contents example_json
                              else OpenFails ENOENT)\<rparr>"

text \<open>The bare machine with a well-known file of an unknown kind.\<close>

definition foreign_world :: "unit world" where
  "foreign_world =
     bare_world\<lparr>files := (\<lambda>p. if p = well_known then Contents foreign_json
                              else OpenFails ENOENT)\<rparr>"







section \<open>Properties\<close>

subsection \<open>Facts about the helpers\<close>

lemma credentialsFromJSON_result:
  "credentialsFromJSON P ctx b scopes handler state = (c, e) \<Longrightarrow> (c = None) \<noteq> (e = None)"
  by (auto simp: credentialsFromJSON_def split: sum.splits)

lemma readCredentialsFile_trace:
  "fst (readCredentialsFile P w ctx filename s) = [EvReadFile filename]"
  by (simp add: readCredentialsFile_def split: sum.split)

lemma readCredentialsFile_result:
  "readCredentialsFile P w ctx filename s = (t, c, e) \<Longrightarrow> (c = None) \<noteq> (e = None)"
  by (auto simp: readCredentialsFile_def split: sum.splits
           dest: credentialsFromJSON_result)

lemma readCredentialsFile_unreadable:
  "ReadFile w filename = Inl e \<Longrightarrow>
     readCredentialsFile P w ctx filename s = ([EvReadFile filename], None, Some e)"
  by (simp add: readCredentialsFile_def)

lemma wellKnownFile_trace:
  "set (fst (wellKnownFile w)) \<subseteq> {EvGetenv ''APPDATA'', EvGetenv ''HOME'', EvUserCurrent}"
  by (auto simp: wellKnownFile_def guessUnixHomeDir_def Let_def split: sum.splits)

lemma bare_well_known: "wellKnownFile bare_world = ([EvGetenv ''HOME''], well_known)"
  by (simp add: wellKnownFile_def guessUnixHomeDir_def bare_world_def example_Join_def
        well_known_def)

lemma sublist_middle: "sublist xs (ps @ xs @ ss)"
  by (rule sublist_appendI)

lemma example_parse:
  "credentialsFromJSON example_deps ctx example_json scopes handler state
     = (Some \<lparr>ProjectID = ''p1'', TokenSource = ''jwt a@b'', JSON = example_json\<rparr>, None)"
  by (simp add: credentialsFromJSON_def Unmarshal_def File_TokenSource_def
        File_of_document_def field_value_def example_deps_def example_document_def)


lemma env_world_read:
  "readCredentialsFile example_deps env_world ctx ''/nonexistent/path'' s
     = ([EvReadFile ''/nonexistent/path''], None,
        Some (PathError ''open'' ''/nonexistent/path'' ENOENT))"
  by (simp add: readCredentialsFile_def ReadFile_def env_world_def bare_world_def)

lemma env_world_var: "Getenv env_world envVar = ''/nonexistent/path''"
  by (simp add: env_world_def bare_world_def)

lemma world_env_unset:
  "Getenv bare_world envVar = []" "Getenv locked_world envVar = []"
  "Getenv garbled_world envVar = []" "Getenv gce_world envVar = []"
  "Getenv flex_world envVar = []" "Getenv half_hooked_world envVar = []"
  by (simp_all add: bare_world_def locked_world_def garbled_world_def gce_world_def
        flex_world_def half_hooked_world_def envVar_def)

lemma world_well_known:
  "wellKnownFile locked_world = ([EvGetenv ''HOME''], well_known)"
  "wellKnownFile garbled_world = ([EvGetenv ''HOME''], well_known)"
  "wellKnownFile gce_world = ([EvGetenv ''HOME''], well_known)"
  "wellKnownFile flex_world = ([EvGetenv ''HOME''], well_known)"
  "wellKnownFile half_hooked_world = ([EvGetenv ''HOME''], well_known)"
  by (simp_all add: wellKnownFile_def guessUnixHomeDir_def locked_world_def garbled_world_def
        gce_world_def flex_world_def half_hooked_world_def bare_world_def example_Join_def
        well_known_def)

lemma world_files:
  "files bare_world well_known = OpenFails ENOENT"
  "files locked_world well_known = OpenFails EACCES"
  "files garbled_world well_known = Contents ''{''"
  "files gce_world well_known = OpenFails ENOENT"
  "files flex_world well_known = OpenFails ENOENT"
  "files half_hooked_world well_known = OpenFails ENOENT"
  by (simp_all add: bare_world_def locked_world_def garbled_world_def gce_world_def
        flex_world_def half_hooked_world_def)

lemma garbled_decode: "decode example_deps ''{'' = Inl ''unexpected end of JSON input''"
  by (simp add: example_deps_def example_json_def untyped_json_def foreign_json_def)

lemma world_read:
  "readCredentialsFile example_deps bare_world ctx well_known s
     = ([EvReadFile well_known], None, Some (PathError ''open'' well_known ENOENT))"
  "readCredentialsFile example_deps locked_world ctx well_known s
     = ([EvReadFile well_known], None, Some (PathError ''open'' well_known EACCES))"
  "readCredentialsFile example_deps garbled_world ctx well_known s
     = ([EvReadFile well_known], None, Some (JSONError ''unexpected end of JSON input''))"
  "readCredentialsFile example_deps gce_world ctx well_known s
     = ([EvReadFile well_known], None, Some (PathError ''open'' well_known ENOENT))"
  "readCredentialsFile example_deps flex_world ctx well_known s
     = ([EvReadFile well_known], None, Some (PathError ''open'' well_known ENOENT))"
  "readCredentialsFile example_deps half_hooked_world ctx well_known s
     = ([EvReadFile well_known], None, Some (PathError ''open'' well_known ENOENT))"
  by (simp_all add: readCredentialsFile_def ReadFile_def world_files credentialsFromJSON_def
        Unmarshal_def garbled_decode)

lemma appengine_world_facts:
  "Getenv appengine_world envVar = []"
  "wellKnownFile appengine_world = ([EvGetenv ''HOME''], well_known)"
  "files appengine_world well_known = OpenFails ENOENT"
  by (simp_all add: appengine_world_def wellKnownFile_def guessUnixHomeDir_def bare_world_def
        example_Join_def well_known_def envVar_def)

lemma appengine_world_read:
  "readCredentialsFile example_deps appengine_world ctx well_known s
     = ([EvReadFile well_known], None, Some (PathError ''open'' well_known ENOENT))"
  by (simp add: readCredentialsFile_def ReadFile_def appengine_world_facts)

lemma bare_world_platform:
  "appengineTokenFunc bare_world = None" "\<not> appengineFlex bare_world" "\<not> OnGCE bare_world"
  by (simp_all add: bare_world_def)

lemma absent_well_known_read:
  "files w filename = OpenFails ENOENT \<Longrightarrow>
     readCredentialsFile P w ctx filename s
       = ([EvReadFile filename], None, Some (PathError ''open'' filename ENOENT))"
  by (simp add: readCredentialsFile_def ReadFile_def)

lemma not_found_message:
  "sublist ''could not find default credentials''
     (''google: could not find default credentials. See '' @ url @ '' for more information.'')"
  "sublist url
     (''google: could not find default credentials. See '' @ url @ '' for more information.'')"
proof -
  have "''google: could not find default credentials. See '' @ url @ '' for more information.''
        = ''google: '' @ ''could not find default credentials''
            @ (''. See '' @ url @ '' for more information.'')"
    by simp
  then show "sublist ''could not find default credentials''
     (''google: could not find default credentials. See '' @ url @ '' for more information.'')"
    using sublist_middle [of "''could not find default credentials''" "''google: ''"
            "''. See '' @ url @ '' for more information.''"]
    by simp
  show "sublist url
     (''google: could not find default credentials. See '' @ url @ '' for more information.'')"
    by (rule sublist_middle)
qed

lemma applicationDefaultCredentials_result:
  "applicationDefaultCredentials P w ctx s = (t, Returns c e) \<Longrightarrow> (c = None) \<noteq> (e = None)"
  by (auto simp: applicationDefaultCredentials_def
           split: if_splits prod.splits option.splits
           dest: readCredentialsFile_result)

lemma gce_world_platform:
  "appengineTokenFunc gce_world = None" "\<not> appengineFlex gce_world" "OnGCE gce_world"
  "metadataProjectID gce_world = (''p-gce'', None)"
  by (simp_all add: gce_world_def bare_world_def)

lemma flex_world_platform:
  "appengineTokenFunc flex_world = Some ()" "appengineFlex flex_world" "OnGCE flex_world"
  "metadataProjectID flex_world = (''p-gce'', None)"
  by (simp_all add: flex_world_def gce_world_def bare_world_def)

lemma half_hooked_world_platform:
  "appengineTokenFunc half_hooked_world = Some ()" "appengineAppIDFunc half_hooked_world = None"
  "\<not> appengineFlex half_hooked_world"
  by (simp_all add: half_hooked_world_def bare_world_def)

lemma appengine_world_platform:
  "appengineTokenFunc appengine_world = Some ()"
  "appengineAppIDFunc appengine_world = Some (\<lambda>ctx. ''app-1'')"
  "\<not> appengineFlex appengine_world"
  by (simp_all add: appengine_world_def bare_world_def)


lemma File_TokenSource_context:
  assumes "serviceAccountSource P ctx = serviceAccountSource P ctx'"
    and "userSource P ctx = userSource P ctx'"
  shows "File_TokenSource P ctx f scopes handler state
       = File_TokenSource P ctx' f scopes handler state"
  using assms by (simp add: File_TokenSource_def)

lemma readCredentialsFile_context:
  assumes "serviceAccountSource P ctx = serviceAccountSource P ctx'"
    and "userSource P ctx = userSource P ctx'"
  shows "readCredentialsFile P w ctx filename s = readCredentialsFile P w ctx' filename s"
proof -
  have "\<And>b scopes handler state. credentialsFromJSON P ctx b scopes handler state
          = credentialsFromJSON P ctx' b scopes handler state"
    by (simp add: credentialsFromJSON_def File_TokenSource_context [OF assms]
          split: sum.split)
  then show ?thesis
    by (simp add: readCredentialsFile_def split: sum.split)
qed

lemma applicationDefaultCredentials_wraps:
  "applicationDefaultCredentials P w ctx s = (t, Returns c (Some e)) \<Longrightarrow> \<exists>msg. e = ErrorString msg"
  by (auto simp: applicationDefaultCredentials_def
         split: if_splits prod.splits option.splits)

lemma example_deps_context:
  "serviceAccountSource example_deps ctx = serviceAccountSource example_deps ctx'"
  "userSource example_deps ctx = userSource example_deps ctx'"
  "AppEngineTokenSource example_deps ctx = AppEngineTokenSource example_deps ctx'"
  by (simp_all add: example_deps_def)

lemma more_world_facts:
  "Getenv configured_world envVar = []" "Getenv foreign_world envVar = []"
  "wellKnownFile configured_world = ([EvGetenv ''HOME''], well_known)"
  "wellKnownFile foreign_world = ([EvGetenv ''HOME''], well_known)"
  "files configured_world well_known = Contents example_json"
  "files foreign_world well_known = Contents foreign_json"
  "appengineTokenFunc configured_world = None" "appengineAppIDFunc configured_world = None"
  "\<not> OnGCE configured_world"
  by (simp_all add: configured_world_def foreign_world_def wellKnownFile_def
        guessUnixHomeDir_def bare_world_def example_Join_def well_known_def envVar_def)

lemma configured_world_read:
  "readCredentialsFile example_deps configured_world ctx well_known s
     = ([EvReadFile well_known],
        Some \<lparr>ProjectID = ''p1'', TokenSource = ''jwt a@b'', JSON = example_json\<rparr>, None)"
  by (simp add: readCredentialsFile_def ReadFile_def more_world_facts example_parse)







text \<open>A call panics only in a state where the token hook is set, the flex flag is not,
  and the app-id hook is nil.\<close>

lemma panic_only_from_nil_app_id_hook:
  assumes "applicationDefaultCredentials P w ctx s = (t, Panics m)"
  shows "appengineTokenFunc w \<noteq> None \<and> \<not> appengineFlex w \<and> appengineAppIDFunc w = None"
  using assms
  by (auto simp: applicationDefaultCredentials_def
         split: if_splits prod.splits option.splits)

lemma app_engine_events_after_check:
  assumes "EvAppIDFunc \<in> set (fst (applicationDefaultCredentials P w ctx s))
         \<or> EvAppEngineTokenSource \<in> set (fst (applicationDefaultCredentials P w ctx s))"
  shows "\<exists>pre post. fst (applicationDefaultCredentials P w ctx s)
                      = pre @ EvTokenFuncCheck # EvAppIDFunc # post"
proof -
  obtain t1 filename where wk: "wellKnownFile w = (t1, filename)"
    by (cases "wellKnownFile w")
  obtain t2 c err where rd: "readCredentialsFile P w ctx filename s = (t2, c, err)"
    by (cases "readCredentialsFile P w ctx filename s")
  have t1: "EvAppIDFunc \<notin> set t1" "EvAppEngineTokenSource \<notin> set t1"
    using wellKnownFile_trace [of w] wk by auto
  have t2: "t2 = [EvReadFile filename]"
    using readCredentialsFile_trace [of P w ctx filename s] rd by simp
  have env: "fst (readCredentialsFile P w ctx (Getenv w envVar) s)
             = [EvReadFile (Getenv w envVar)]"
    by (rule readCredentialsFile_trace)
  have "fst (applicationDefaultCredentials P w ctx s)
          = (EvGetenv envVar # t1 @ t2) @ EvTokenFuncCheck # EvAppIDFunc # []
      \<or> fst (applicationDefaultCredentials P w ctx s)
          = (EvGetenv envVar # t1 @ t2) @ EvTokenFuncCheck # EvAppIDFunc
              # [EvAppEngineTokenSource]"
    using assms wk rd t1 t2 env
    by (auto simp: applicationDefaultCredentials_def
           split: if_splits prod.splits option.splits)
  then show ?thesis by blast
qed

lemma appengine_world_run:
  "applicationDefaultCredentials example_deps appengine_world ctx example_settings
     = ([EvGetenv envVar, EvGetenv ''HOME'', EvReadFile well_known,
         EvTokenFuncCheck, EvAppIDFunc, EvAppEngineTokenSource],
        Returns (Some \<lparr>ProjectID = ''app-1'', TokenSource = ''appengine scope-a'',
                         JSON = []\<rparr>) None)"
  by (simp add: applicationDefaultCredentials_def appengine_world_facts appengine_world_read
        appengine_world_platform)
     (simp add: example_deps_def example_settings_def)


subsection \<open>The explicit document\<close>

text \<open>
  C1. When \<open>CredentialsJSON\<close> of the settings is not empty, \<open>findJSONCredentials\<close>
  parses that document directly: its result is the result of \<open>credentialsFromJSON\<close> on
  the bytes of the setting, it reads no ambient input (the log of reads is empty), and
  two runs that differ only in the world (environment variables, files, platform, App
  Engine hooks, metadata service) return the same result.
\<close>

theorem explicit_json_ignores_world:
  assumes "CredentialsJSON s \<noteq> []"
  shows "findJSONCredentials P w ctx s = findJSONCredentials P w' ctx s
       \<and> fst (findJSONCredentials P w ctx s) = []
       \<and> snd (findJSONCredentials P w ctx s) =
           (case credentialsFromJSON P ctx (CredentialsJSON s) (Split (Scope s) CHR '' '')
                   (OAuthFlowHandler s) (State s) of
              (c, e) \<Rightarrow> Returns c e)"
  using assms by (simp add: findJSONCredentials_def split: prod.split)

theorem explicit_json_ignores_world_witness:
  "CredentialsJSON (example_settings\<lparr>CredentialsJSON := example_json\<rparr>) \<noteq> []
   \<and> findJSONCredentials example_deps flex_world \<lparr>cancelled = False\<rparr>
        (example_settings\<lparr>CredentialsJSON := example_json\<rparr>)
     = findJSONCredentials example_deps bare_world \<lparr>cancelled = False\<rparr>
        (example_settings\<lparr>CredentialsJSON := example_json\<rparr>)
   \<and> fst (findJSONCredentials example_deps flex_world \<lparr>cancelled = False\<rparr>
        (example_settings\<lparr>CredentialsJSON := example_json\<rparr>)) = []
   \<and> snd (findJSONCredentials example_deps flex_world \<lparr>cancelled = False\<rparr>
        (example_settings\<lparr>CredentialsJSON := example_json\<rparr>))
     = Returns (Some \<lparr>ProjectID = ''p1'', TokenSource = ''jwt a@b'',
                       JSON = example_json\<rparr>) None"
proof -
  have ne: "CredentialsJSON (example_settings\<lparr>CredentialsJSON := example_json\<rparr>) \<noteq> []"
    by (simp add: example_json_def)
  have run: "credentialsFromJSON example_deps \<lparr>cancelled = False\<rparr> example_json
               (Split ''scope-a'' CHR '' '') None []
             = (Some \<lparr>ProjectID = ''p1'', TokenSource = ''jwt a@b'', JSON = example_json\<rparr>,
                None)"
    by (simp add: example_parse)
  from explicit_json_ignores_world
         [OF ne, of example_deps flex_world "\<lparr>cancelled = False\<rparr>" bare_world]
  show ?thesis using ne run by (auto simp: example_settings_def)
qed

subsection \<open>The document parser\<close>

text \<open>
  C5. When \<open>credentialsFromJSON\<close> succeeds (it returns credentials and a nil error), the
  \<open>JSON\<close> field of the credentials is the input, byte for byte, and the \<open>ProjectID\<close>
  field is the \<^verbatim>\<open>project_id\<close> field of the decoded document, the empty string when the
  document has no such field.
\<close>

theorem credentialsFromJSON_roundtrip:
  assumes "credentialsFromJSON P ctx jsonData scopes handler state = (Some c, None)"
  shows "JSON c = jsonData
       \<and> (\<exists>d. decode P jsonData = Inr d
              \<and> ProjectID c = (case doc_project_id d of None \<Rightarrow> [] | Some p \<Rightarrow> p))"
  using assms
  by (auto simp: credentialsFromJSON_def Unmarshal_def File_of_document_def field_value_def
           split: sum.splits)

theorem credentialsFromJSON_roundtrip_witness:
  "credentialsFromJSON example_deps \<lparr>cancelled = False\<rparr> example_json [''scope-a''] None []
     = (Some \<lparr>ProjectID = ''p1'', TokenSource = ''jwt a@b'', JSON = example_json\<rparr>, None)
   \<and> JSON \<lparr>ProjectID = ''p1'', TokenSource = ''jwt a@b'', JSON = example_json\<rparr>
       = example_json
   \<and> (\<exists>d. decode example_deps example_json = Inr d
          \<and> ProjectID \<lparr>ProjectID = ''p1'', TokenSource = ''jwt a@b'', JSON = example_json\<rparr>
              = (case doc_project_id d of None \<Rightarrow> [] | Some p \<Rightarrow> p))"
  using credentialsFromJSON_roundtrip
          [OF example_parse [of "\<lparr>cancelled = False\<rparr>" "[''scope-a'']" None "[]"]]
        example_parse [of "\<lparr>cancelled = False\<rparr>" "[''scope-a'']" None "[]"]
  by simp

text \<open>
  C6. A document whose \<^verbatim>\<open>type\<close> field is missing, or holds a value that is neither of
  the two known kinds, makes \<open>credentialsFromJSON\<close> return no credentials and a
  structural parse error, which is not a does-not-exist error.
\<close>

theorem credentialsFromJSON_bad_kind:
  assumes "decode P jsonData = Inr d"
    and "doc_type d = None
       \<or> field_value (doc_type d) \<notin> {serviceAccountKey P, userCredentialsKey P}"
  shows "\<exists>msg. credentialsFromJSON P ctx jsonData scopes handler state
               = (None, Some (ParseError (field_value (doc_type d)) msg))
             \<and> \<not> IsNotExist (ParseError (field_value (doc_type d)) msg)"
  using assms
  by (auto simp: credentialsFromJSON_def Unmarshal_def File_of_document_def
        File_TokenSource_def field_value_def split: sum.splits)

theorem credentialsFromJSON_bad_kind_witness:
  "(decode example_deps untyped_json = Inr untyped_document
    \<and> doc_type untyped_document = None
    \<and> (\<exists>msg. credentialsFromJSON example_deps \<lparr>cancelled = False\<rparr> untyped_json
                [''scope-a''] None []
              = (None, Some (ParseError (field_value (doc_type untyped_document)) msg))
            \<and> \<not> IsNotExist (ParseError (field_value (doc_type untyped_document)) msg)))
   \<and> (decode example_deps foreign_json = Inr foreign_document
    \<and> field_value (doc_type foreign_document)
        \<notin> {serviceAccountKey example_deps, userCredentialsKey example_deps}
    \<and> (\<exists>msg. credentialsFromJSON example_deps \<lparr>cancelled = False\<rparr> foreign_json
                [''scope-a''] None []
              = (None, Some (ParseError (field_value (doc_type foreign_document)) msg))
            \<and> \<not> IsNotExist (ParseError (field_value (doc_type foreign_document)) msg)))"
proof -
  have dec: "decode example_deps untyped_json = Inr untyped_document"
    by (simp add: example_deps_def untyped_json_def example_json_def)
  have missing: "doc_type untyped_document = None"
    by (simp add: untyped_document_def)
  have dec': "decode example_deps foreign_json = Inr foreign_document"
    by (simp add: example_deps_def untyped_json_def example_json_def foreign_json_def)
  have unknown: "field_value (doc_type foreign_document)
        \<notin> {serviceAccountKey example_deps, userCredentialsKey example_deps}"
    by (simp add: foreign_document_def field_value_def example_deps_def)
  from credentialsFromJSON_bad_kind [OF dec disjI1 [OF missing]]
    credentialsFromJSON_bad_kind [OF dec' disjI2 [OF unknown]]
    dec missing dec' unknown
  show ?thesis by blast
qed

subsection \<open>The well-known file\<close>

text \<open>
  C8. \<open>wellKnownFile\<close> returns, on Windows, the join of the value of \<^verbatim>\<open>APPDATA\<close> with
  \<^verbatim>\<open>gcloud\<close> and \<^verbatim>\<open>application_default_credentials.json\<close>; on any other platform the
  join of the home directory with \<^verbatim>\<open>.config\<close>, \<^verbatim>\<open>gcloud\<close> and the same file name,
  where the home directory is the value of \<^verbatim>\<open>HOME\<close> when that is not empty, else the
  home directory of the current user when the lookup succeeds, else the empty string.
  The function has no failing outcome: it returns a path in every world.
\<close>

theorem wellKnownFile_path:
  "snd (wellKnownFile w) =
     (if GOOS w = ''windows''
      then Join w [Getenv w ''APPDATA'', ''gcloud'', ''application_default_credentials.json'']
      else Join w [if Getenv w ''HOME'' \<noteq> [] then Getenv w ''HOME''
                   else (case userCurrent w of Inr u \<Rightarrow> HomeDir u | Inl e \<Rightarrow> []),
                   ''.config'', ''gcloud'', ''application_default_credentials.json''])"
  by (simp add: wellKnownFile_def guessUnixHomeDir_def Let_def split: sum.split)

subsection \<open>The environment-variable probe\<close>

text \<open>
  C2. When \<^verbatim>\<open>GOOGLE_APPLICATION_CREDENTIALS\<close> is set to a non-empty path and reading or
  parsing the file at that path fails (a file that does not exist included),
  \<open>applicationDefaultCredentials\<close> returns no credentials and an error whose message
  contains the name of the variable and the message of the failure; the only ambient
  reads are the variable and that file, so no later probe is attempted.
\<close>

theorem env_var_failure_is_fatal:
  assumes "Getenv w envVar \<noteq> []"
    and "readCredentialsFile P w ctx (Getenv w envVar) s = (t, c, Some e)"
  shows "\<exists>msg. applicationDefaultCredentials P w ctx s
               = ([EvGetenv envVar, EvReadFile (Getenv w envVar)],
                  Returns None (Some (ErrorString msg)))
             \<and> sublist envVar msg \<and> sublist (Error e) msg"
proof -
  let ?msg = "''google: error getting credentials using '' @ envVar
                @ '' environment variable: '' @ Error e"
  from assms(2) have t: "t = [EvReadFile (Getenv w envVar)]"
    using readCredentialsFile_trace [of P w ctx "Getenv w envVar" s] by simp
  from assms t have "applicationDefaultCredentials P w ctx s
      = ([EvGetenv envVar, EvReadFile (Getenv w envVar)], Returns None (Some (ErrorString ?msg)))"
    by (simp add: applicationDefaultCredentials_def)
  moreover have "sublist envVar ?msg"
    by (rule sublist_middle)
  moreover have "sublist (Error e) ?msg"
    using sublist_middle [of "Error e" "''google: error getting credentials using '' @ envVar
                @ '' environment variable: ''" "[]"] by simp
  ultimately show ?thesis by blast
qed

theorem env_var_failure_is_fatal_witness:
  "Getenv env_world envVar \<noteq> []
   \<and> readCredentialsFile example_deps env_world \<lparr>cancelled = False\<rparr>
        (Getenv env_world envVar) example_settings
      = ([EvReadFile ''/nonexistent/path''], None,
         Some (PathError ''open'' ''/nonexistent/path'' ENOENT))
   \<and> (\<exists>msg. applicationDefaultCredentials example_deps env_world \<lparr>cancelled = False\<rparr>
               example_settings
             = ([EvGetenv envVar, EvReadFile (Getenv env_world envVar)],
                Returns None (Some (ErrorString msg)))
           \<and> sublist envVar msg
           \<and> sublist (Error (PathError ''open'' ''/nonexistent/path'' ENOENT)) msg)"
proof -
  have set: "Getenv env_world envVar \<noteq> []"
    by (simp add: env_world_var)
  have fails: "readCredentialsFile example_deps env_world \<lparr>cancelled = False\<rparr>
        (Getenv env_world envVar) example_settings
      = ([EvReadFile ''/nonexistent/path''], None,
         Some (PathError ''open'' ''/nonexistent/path'' ENOENT))"
    by (simp add: env_world_var env_world_read)
  from env_var_failure_is_fatal [OF set fails] set fails
  show ?thesis by blast
qed

subsection \<open>The well-known-file probe\<close>





subsection \<open>The end of the chain\<close>

text \<open>
  C4. When the environment variable is unset, the well-known file does not exist, the
  App Engine token hook is nil or the flex flag is set, and the metadata presence
  check says no, \<open>applicationDefaultCredentials\<close> returns a nil credentials pointer and
  one error, whose message says that default credentials could not be found and
  contains the documentation URL. In every state, a call that returns does not return
  non-nil credentials together with a non-nil error.
\<close>

theorem exhausted_chain:
  "(Getenv w envVar = [] \<and> files w (snd (wellKnownFile w)) = OpenFails ENOENT
      \<and> (appengineTokenFunc w = None \<or> appengineFlex w) \<and> \<not> OnGCE w
    \<longrightarrow> (\<exists>t msg. applicationDefaultCredentials P w ctx s
                    = (t, Returns None (Some (ErrorString msg)))
                \<and> msg = ''google: could not find default credentials. See '' @ url
                          @ '' for more information.''
                \<and> sublist ''could not find default credentials'' msg
                \<and> sublist url msg))
   \<and> (\<forall>t c e. applicationDefaultCredentials P w ctx s = (t, Returns c e)
         \<longrightarrow> \<not> (c \<noteq> None \<and> e \<noteq> None))"
proof (intro conjI impI allI)
  assume h: "Getenv w envVar = [] \<and> files w (snd (wellKnownFile w)) = OpenFails ENOENT
      \<and> (appengineTokenFunc w = None \<or> appengineFlex w) \<and> \<not> OnGCE w"
  obtain t1 filename where wk: "wellKnownFile w = (t1, filename)"
    by (cases "wellKnownFile w")
  with h have rd: "readCredentialsFile P w ctx filename s
       = ([EvReadFile filename], None, Some (PathError ''open'' filename ENOENT))"
    by (simp add: absent_well_known_read)
  from h wk rd have "applicationDefaultCredentials P w ctx s
      = (EvGetenv envVar # t1 @ [EvReadFile filename, EvTokenFuncCheck, EvOnGCE],
         Returns None (Some (ErrorString
           (''google: could not find default credentials. See '' @ url
              @ '' for more information.''))))"
    by (auto simp: applicationDefaultCredentials_def)
  then show "\<exists>t msg. applicationDefaultCredentials P w ctx s
                    = (t, Returns None (Some (ErrorString msg)))
                \<and> msg = ''google: could not find default credentials. See '' @ url
                          @ '' for more information.''
                \<and> sublist ''could not find default credentials'' msg
                \<and> sublist url msg"
    using not_found_message by blast
next
  fix t c e
  assume "applicationDefaultCredentials P w ctx s = (t, Returns c e)"
  from applicationDefaultCredentials_result [OF this]
  show "\<not> (c \<noteq> None \<and> e \<noteq> None)" by blast
qed

theorem exhausted_chain_witness:
  "Getenv bare_world envVar = []
   \<and> files bare_world (snd (wellKnownFile bare_world)) = OpenFails ENOENT
   \<and> (appengineTokenFunc bare_world = None \<or> appengineFlex bare_world)
   \<and> \<not> OnGCE bare_world
   \<and> applicationDefaultCredentials example_deps bare_world \<lparr>cancelled = False\<rparr>
        example_settings
      = ([EvGetenv envVar, EvGetenv ''HOME'', EvReadFile well_known, EvTokenFuncCheck, EvOnGCE],
         Returns None (Some (ErrorString
           (''google: could not find default credentials. See '' @ url
              @ '' for more information.''))))
   \<and> \<not> ((None :: string Credentials option) \<noteq> None
          \<and> Some (ErrorString (''google: could not find default credentials. See '' @ url
                      @ '' for more information.'')) \<noteq> None)"
proof -
  have h: "Getenv bare_world envVar = []
      \<and> files bare_world (snd (wellKnownFile bare_world)) = OpenFails ENOENT
      \<and> (appengineTokenFunc bare_world = None \<or> appengineFlex bare_world)
      \<and> \<not> OnGCE bare_world"
    by (simp add: world_env_unset bare_well_known world_files bare_world_platform)
  have run: "applicationDefaultCredentials example_deps bare_world \<lparr>cancelled = False\<rparr>
        example_settings
      = ([EvGetenv envVar, EvGetenv ''HOME'', EvReadFile well_known, EvTokenFuncCheck, EvOnGCE],
         Returns None (Some (ErrorString
           (''google: could not find default credentials. See '' @ url
              @ '' for more information.''))))"
    by (simp add: applicationDefaultCredentials_def world_env_unset bare_well_known world_read
          bare_world_platform)
  from exhausted_chain [of bare_world example_deps "\<lparr>cancelled = False\<rparr>" example_settings]
    h run
  show ?thesis by blast
qed

subsection \<open>The context\<close>

text \<open>
  C7, as the claim states it, fails: \<^verbatim>\<open>ioutil.ReadFile\<close>, \<^verbatim>\<open>metadata.OnGCE\<close> and
  \<^verbatim>\<open>metadata.ProjectID\<close> take no context, and the chain never looks at the one it
  has. With a cancelled context, the environment variable unset and no well-known
  file, the call on a Compute Engine machine falls through both file probes and
  returns the metadata credentials with a nil error.
\<close>

theorem cancelled_context_falls_through:
  "cancelled \<lparr>cancelled = True\<rparr>
   \<and> applicationDefaultCredentials example_deps gce_world \<lparr>cancelled = True\<rparr> example_settings
      = ([EvGetenv envVar, EvGetenv ''HOME'', EvReadFile well_known,
          EvTokenFuncCheck, EvOnGCE, EvProjectID],
         Returns (Some \<lparr>ProjectID = ''p-gce'', TokenSource = ''compute '', JSON = []\<rparr>) None)"
  by (simp add: applicationDefaultCredentials_def world_env_unset world_well_known world_read
        gce_world_platform) (simp add: example_deps_def)

text \<open>
  C7, amended. The chain does not consult the context: it only hands it on, to the
  token-source constructors of the two kinds of document, to the constructor of the
  App Engine token source and to the app-id hook. For any two contexts, cancelled or
  not, on which those four agree, \<open>applicationDefaultCredentials\<close> returns the same
  result after the same reads. When the file of the probe in charge (the one named by
  the environment variable when it is set, the well-known file otherwise) cannot be
  read and the App Engine probe is not taken, none of the four is reached and the
  result is the same for any two contexts outright. In no state is the returned error
  the cancellation error itself: every error the chain returns is one it built with
  \<^verbatim>\<open>fmt.Errorf\<close>.
\<close>

theorem context_only_handed_on:
  "(serviceAccountSource P ctx = serviceAccountSource P ctx'
      \<and> userSource P ctx = userSource P ctx'
      \<and> AppEngineTokenSource P ctx = AppEngineTokenSource P ctx'
      \<and> map_option (\<lambda>appID. appID ctx) (appengineAppIDFunc w)
          = map_option (\<lambda>appID. appID ctx') (appengineAppIDFunc w)
    \<longrightarrow> applicationDefaultCredentials P w ctx s = applicationDefaultCredentials P w ctx' s)
   \<and> (ReadFile w (if Getenv w envVar \<noteq> [] then Getenv w envVar
                   else snd (wellKnownFile w)) = Inl e
        \<and> (appengineTokenFunc w = None \<or> appengineFlex w)
      \<longrightarrow> applicationDefaultCredentials P w ctx s = applicationDefaultCredentials P w ctx' s)
   \<and> (\<forall>t c. applicationDefaultCredentials P w ctx s \<noteq> (t, Returns c (Some Canceled)))"
proof (intro conjI impI allI)
  assume h: "serviceAccountSource P ctx = serviceAccountSource P ctx'
      \<and> userSource P ctx = userSource P ctx'
      \<and> AppEngineTokenSource P ctx = AppEngineTokenSource P ctx'
      \<and> map_option (\<lambda>appID. appID ctx) (appengineAppIDFunc w)
          = map_option (\<lambda>appID. appID ctx') (appengineAppIDFunc w)"
  then have rd: "\<And>filename. readCredentialsFile P w ctx filename s
                            = readCredentialsFile P w ctx' filename s"
    by (intro readCredentialsFile_context) simp_all
  from h have ae: "AppEngineTokenSource P ctx = AppEngineTokenSource P ctx'"
    by simp
  show "applicationDefaultCredentials P w ctx s = applicationDefaultCredentials P w ctx' s"
  proof (cases "appengineAppIDFunc w")
    case None
    then show ?thesis
      unfolding applicationDefaultCredentials_def rd ae
      by (auto split: prod.split option.split)
  next
    case (Some appID)
    with h have "appID ctx = appID ctx'"
      by simp
    with Some show ?thesis
      unfolding applicationDefaultCredentials_def rd ae
      by (auto split: prod.split option.split)
  qed
next
  assume h: "ReadFile w (if Getenv w envVar \<noteq> [] then Getenv w envVar
                   else snd (wellKnownFile w)) = Inl e
        \<and> (appengineTokenFunc w = None \<or> appengineFlex w)"
  show "applicationDefaultCredentials P w ctx s = applicationDefaultCredentials P w ctx' s"
  proof (cases "Getenv w envVar \<noteq> []")
    case True
    with h have "\<And>x. readCredentialsFile P w x (Getenv w envVar) s
         = ([EvReadFile (Getenv w envVar)], None, Some e)"
      by (simp add: readCredentialsFile_unreadable)
    with True show ?thesis
      by (simp add: applicationDefaultCredentials_def)
  next
    case False
    obtain t1 filename where wk: "wellKnownFile w = (t1, filename)"
      by (cases "wellKnownFile w")
    with False h have "\<And>x. readCredentialsFile P w x filename s
         = ([EvReadFile filename], None, Some e)"
      by (simp add: readCredentialsFile_unreadable)
    with False wk h show ?thesis
      by (auto simp: applicationDefaultCredentials_def)
  qed
next
  fix t c
  show "applicationDefaultCredentials P w ctx s \<noteq> (t, Returns c (Some Canceled))"
    using applicationDefaultCredentials_wraps [of P w ctx s t c Canceled] by auto
qed


theorem context_only_handed_on_witness:
  "(serviceAccountSource example_deps \<lparr>cancelled = True\<rparr>
      = serviceAccountSource example_deps \<lparr>cancelled = False\<rparr>
    \<and> userSource example_deps \<lparr>cancelled = True\<rparr>
      = userSource example_deps \<lparr>cancelled = False\<rparr>
    \<and> AppEngineTokenSource example_deps \<lparr>cancelled = True\<rparr>
      = AppEngineTokenSource example_deps \<lparr>cancelled = False\<rparr>
    \<and> map_option (\<lambda>appID. appID \<lparr>cancelled = True\<rparr>) (appengineAppIDFunc configured_world)
      = map_option (\<lambda>appID. appID \<lparr>cancelled = False\<rparr>) (appengineAppIDFunc configured_world)
    \<and> applicationDefaultCredentials example_deps configured_world \<lparr>cancelled = True\<rparr>
          example_settings
      = applicationDefaultCredentials example_deps configured_world \<lparr>cancelled = False\<rparr>
          example_settings
    \<and> applicationDefaultCredentials example_deps configured_world \<lparr>cancelled = True\<rparr>
          example_settings
      = ([EvGetenv envVar, EvGetenv ''HOME'', EvReadFile well_known],
         Returns (Some \<lparr>ProjectID = ''p1'', TokenSource = ''jwt a@b'',
                          JSON = example_json\<rparr>) None))
   \<and> (ReadFile gce_world (if Getenv gce_world envVar \<noteq> [] then Getenv gce_world envVar
                            else snd (wellKnownFile gce_world))
        = Inl (PathError ''open'' well_known ENOENT)
    \<and> (appengineTokenFunc gce_world = None \<or> appengineFlex gce_world)
    \<and> applicationDefaultCredentials example_deps gce_world \<lparr>cancelled = True\<rparr>
          example_settings
      = applicationDefaultCredentials example_deps gce_world \<lparr>cancelled = False\<rparr>
          example_settings)
   \<and> (\<forall>t c. applicationDefaultCredentials example_deps configured_world \<lparr>cancelled = True\<rparr>
                 example_settings \<noteq> (t, Returns c (Some Canceled)))"
proof -
  have agree:
    "serviceAccountSource example_deps \<lparr>cancelled = True\<rparr>
      = serviceAccountSource example_deps \<lparr>cancelled = False\<rparr>"
    "userSource example_deps \<lparr>cancelled = True\<rparr>
      = userSource example_deps \<lparr>cancelled = False\<rparr>"
    "AppEngineTokenSource example_deps \<lparr>cancelled = True\<rparr>
      = AppEngineTokenSource example_deps \<lparr>cancelled = False\<rparr>"
    "map_option (\<lambda>appID. appID \<lparr>cancelled = True\<rparr>) (appengineAppIDFunc configured_world)
      = map_option (\<lambda>appID. appID \<lparr>cancelled = False\<rparr>) (appengineAppIDFunc configured_world)"
    by (simp_all add: example_deps_context more_world_facts)
  have run: "applicationDefaultCredentials example_deps configured_world \<lparr>cancelled = True\<rparr>
          example_settings
      = ([EvGetenv envVar, EvGetenv ''HOME'', EvReadFile well_known],
         Returns (Some \<lparr>ProjectID = ''p1'', TokenSource = ''jwt a@b'',
                          JSON = example_json\<rparr>) None)"
    by (simp add: applicationDefaultCredentials_def more_world_facts configured_world_read)
  have unreadable: "ReadFile gce_world
       (if Getenv gce_world envVar \<noteq> [] then Getenv gce_world envVar
        else snd (wellKnownFile gce_world))
     = Inl (PathError ''open'' well_known ENOENT)"
    by (simp add: world_env_unset world_well_known ReadFile_def world_files)
  have unhooked: "appengineTokenFunc gce_world = None \<or> appengineFlex gce_world"
    by (simp add: gce_world_platform)
  note readable = context_only_handed_on
    [of example_deps "\<lparr>cancelled = True\<rparr>" "\<lparr>cancelled = False\<rparr>" configured_world
        example_settings]
  note failing = context_only_handed_on
    [of example_deps "\<lparr>cancelled = True\<rparr>" "\<lparr>cancelled = False\<rparr>" gce_world
        example_settings "PathError ''open'' well_known ENOENT"]
  from readable agree
  have same: "applicationDefaultCredentials example_deps configured_world \<lparr>cancelled = True\<rparr>
          example_settings
      = applicationDefaultCredentials example_deps configured_world \<lparr>cancelled = False\<rparr>
          example_settings"
    by blast
  from readable
  have never: "\<forall>t c. applicationDefaultCredentials example_deps configured_world
                 \<lparr>cancelled = True\<rparr> example_settings \<noteq> (t, Returns c (Some Canceled))"
    by blast
  from failing unreadable unhooked
  have same': "applicationDefaultCredentials example_deps gce_world \<lparr>cancelled = True\<rparr>
          example_settings
      = applicationDefaultCredentials example_deps gce_world \<lparr>cancelled = False\<rparr>
          example_settings"
    by blast
  show ?thesis
    by (intro conjI agree same run unreadable unhooked same' never)
qed

subsection \<open>The App Engine probe\<close>

text \<open>
  C9, as the claim states it, fails: not every hook is compared with nil before it is
  invoked. The probe compares \<^verbatim>\<open>appengineTokenFunc\<close> with nil and then calls
  \<^verbatim>\<open>appengineAppIDFunc\<close>, which it has not compared with nil. In a state whose token
  hook is set and whose app-id hook is nil, the probe calls the nil hook and the call
  panics.
\<close>

theorem nil_app_id_hook_panics:
  "appengineTokenFunc half_hooked_world \<noteq> None
   \<and> appengineAppIDFunc half_hooked_world = None
   \<and> applicationDefaultCredentials example_deps half_hooked_world \<lparr>cancelled = False\<rparr>
        example_settings
      = ([EvGetenv envVar, EvGetenv ''HOME'', EvReadFile well_known,
          EvTokenFuncCheck, EvAppIDFunc],
         Panics ''invalid memory address or nil pointer dereference'')"
  by (simp add: applicationDefaultCredentials_def world_env_unset world_well_known world_read
        half_hooked_world_platform)

text \<open>
  C9, amended. The probe compares one hook with nil, \<^verbatim>\<open>appengineTokenFunc\<close>, as the sign
  that the process runs under the runtime, and it does so before it invokes anything:
  the app-id hook is called and the App Engine token source built only where the token
  hook is not nil, and the hook check comes right before the call of the app-id hook.
  In every state where the app-id hook is set whenever the token hook is, as when the
  runtime sets the two together, the call never panics and the app-id hook is called
  only where it is not nil.
\<close>

theorem hooks_guarded_by_token_hook:
  "(EvAppIDFunc \<in> set (fst (applicationDefaultCredentials P w ctx s))
      \<or> EvAppEngineTokenSource \<in> set (fst (applicationDefaultCredentials P w ctx s))
    \<longrightarrow> appengineTokenFunc w \<noteq> None
      \<and> (\<exists>pre post. fst (applicationDefaultCredentials P w ctx s)
                       = pre @ EvTokenFuncCheck # EvAppIDFunc # post))
   \<and> ((appengineTokenFunc w \<noteq> None \<longrightarrow> appengineAppIDFunc w \<noteq> None)
    \<longrightarrow> (\<forall>m. snd (applicationDefaultCredentials P w ctx s) \<noteq> Panics m)
      \<and> (EvAppIDFunc \<in> set (fst (applicationDefaultCredentials P w ctx s))
           \<longrightarrow> appengineAppIDFunc w \<noteq> None))"
proof (intro conjI impI allI)
  assume taken: "EvAppIDFunc \<in> set (fst (applicationDefaultCredentials P w ctx s))
      \<or> EvAppEngineTokenSource \<in> set (fst (applicationDefaultCredentials P w ctx s))"
  then show "\<exists>pre post. fst (applicationDefaultCredentials P w ctx s)
                       = pre @ EvTokenFuncCheck # EvAppIDFunc # post"
    by (rule app_engine_events_after_check)
  have wk: "EvAppIDFunc \<notin> set (fst (wellKnownFile w))"
       "EvAppEngineTokenSource \<notin> set (fst (wellKnownFile w))"
    using wellKnownFile_trace [of w] by auto
  have rd: "\<And>f. fst (readCredentialsFile P w ctx f s) = [EvReadFile f]"
    by (rule readCredentialsFile_trace)
  show "appengineTokenFunc w \<noteq> None"
    using taken wk rd [of "Getenv w envVar"] rd [of "snd (wellKnownFile w)"]
    by (auto simp: applicationDefaultCredentials_def
           split: if_splits prod.splits option.splits)
next
  fix m
  assume paired: "appengineTokenFunc w \<noteq> None \<longrightarrow> appengineAppIDFunc w \<noteq> None"
  show "snd (applicationDefaultCredentials P w ctx s) \<noteq> Panics m"
  proof
    assume "snd (applicationDefaultCredentials P w ctx s) = Panics m"
    then have "applicationDefaultCredentials P w ctx s
                 = (fst (applicationDefaultCredentials P w ctx s), Panics m)"
      by (metis prod.collapse)
    from panic_only_from_nil_app_id_hook [OF this] paired show False
      by simp
  qed
next
  assume paired: "appengineTokenFunc w \<noteq> None \<longrightarrow> appengineAppIDFunc w \<noteq> None"
    and called: "EvAppIDFunc \<in> set (fst (applicationDefaultCredentials P w ctx s))"
  have wk: "EvAppIDFunc \<notin> set (fst (wellKnownFile w))"
    using wellKnownFile_trace [of w] by auto
  have rd: "\<And>f. fst (readCredentialsFile P w ctx f s) = [EvReadFile f]"
    by (rule readCredentialsFile_trace)
  have "appengineTokenFunc w \<noteq> None"
    using called wk rd [of "Getenv w envVar"] rd [of "snd (wellKnownFile w)"]
    by (auto simp: applicationDefaultCredentials_def
           split: if_splits prod.splits option.splits)
  with paired show "appengineAppIDFunc w \<noteq> None"
    by simp
qed

theorem hooks_guarded_by_token_hook_witness:
  "EvAppIDFunc \<in> set (fst (applicationDefaultCredentials example_deps appengine_world
                             \<lparr>cancelled = False\<rparr> example_settings))
   \<and> appengineTokenFunc appengine_world \<noteq> None
   \<and> appengineAppIDFunc appengine_world \<noteq> None
   \<and> (\<exists>pre post. fst (applicationDefaultCredentials example_deps appengine_world
                         \<lparr>cancelled = False\<rparr> example_settings)
                   = pre @ EvTokenFuncCheck # EvAppIDFunc # post)
   \<and> (\<forall>m. snd (applicationDefaultCredentials example_deps appengine_world
                   \<lparr>cancelled = False\<rparr> example_settings) \<noteq> Panics m)"
proof -
  have called: "EvAppIDFunc \<in> set (fst (applicationDefaultCredentials example_deps
                    appengine_world \<lparr>cancelled = False\<rparr> example_settings))"
    by (simp add: appengine_world_run)
  have paired: "appengineTokenFunc appengine_world \<noteq> None
                  \<longrightarrow> appengineAppIDFunc appengine_world \<noteq> None"
    by (simp add: appengine_world_platform)
  from hooks_guarded_by_token_hook
         [of example_deps appengine_world "\<lparr>cancelled = False\<rparr>" example_settings]
       called paired
  show ?thesis by blast
qed

text \<open>
  C10. The App Engine probe is taken (the app-id hook is called, the App Engine token
  source is built) only when the token hook is not nil and the flex flag is not set.
  When the chain reaches the probe (environment variable unset, does-not-exist error
  for the well-known file) with the flex flag set, it goes on to the metadata probe,
  hook or no hook: the next read after the hook check is the metadata presence check,
  and the result is the metadata credentials or the terminal error. When it reaches
  the probe with the token hook set and the flex flag not set, the probe is taken and
  the metadata service is not asked.
\<close>

theorem managed_runtime_gate:
  "(EvAppIDFunc \<in> set (fst (applicationDefaultCredentials P w ctx s))
      \<or> EvAppEngineTokenSource \<in> set (fst (applicationDefaultCredentials P w ctx s))
    \<longrightarrow> appengineTokenFunc w \<noteq> None \<and> \<not> appengineFlex w)
   \<and> (Getenv w envVar = []
        \<and> readCredentialsFile P w ctx (snd (wellKnownFile w)) s = (t2, c, Some e)
        \<and> IsNotExist e \<and> appengineFlex w
      \<longrightarrow> applicationDefaultCredentials P w ctx s
          = (EvGetenv envVar # fst (wellKnownFile w) @ t2
               @ (if OnGCE w then [EvTokenFuncCheck, EvOnGCE, EvProjectID]
                  else [EvTokenFuncCheck, EvOnGCE]),
             if OnGCE w
             then Returns (Some \<lparr>ProjectID = fst (metadataProjectID w),
                                  TokenSource = ComputeTokenSource P [], JSON = []\<rparr>) None
             else Returns None (Some (ErrorString
                    (''google: could not find default credentials. See '' @ url
                       @ '' for more information.'')))))
   \<and> (Getenv w envVar = []
        \<and> readCredentialsFile P w ctx (snd (wellKnownFile w)) s = (t2, c, Some e)
        \<and> IsNotExist e \<and> appengineTokenFunc w \<noteq> None \<and> \<not> appengineFlex w
      \<longrightarrow> EvAppIDFunc \<in> set (fst (applicationDefaultCredentials P w ctx s))
        \<and> EvOnGCE \<notin> set (fst (applicationDefaultCredentials P w ctx s)))"
proof (intro conjI impI)
  assume taken: "EvAppIDFunc \<in> set (fst (applicationDefaultCredentials P w ctx s))
      \<or> EvAppEngineTokenSource \<in> set (fst (applicationDefaultCredentials P w ctx s))"
  have wk: "EvAppIDFunc \<notin> set (fst (wellKnownFile w))"
       "EvAppEngineTokenSource \<notin> set (fst (wellKnownFile w))"
    using wellKnownFile_trace [of w] by auto
  have rd: "\<And>f. fst (readCredentialsFile P w ctx f s) = [EvReadFile f]"
    by (rule readCredentialsFile_trace)
  show "appengineTokenFunc w \<noteq> None" "\<not> appengineFlex w"
    using taken wk rd [of "Getenv w envVar"] rd [of "snd (wellKnownFile w)"]
    by (auto simp: applicationDefaultCredentials_def
           split: if_splits prod.splits option.splits)
next
  assume "Getenv w envVar = []
        \<and> readCredentialsFile P w ctx (snd (wellKnownFile w)) s = (t2, c, Some e)
        \<and> IsNotExist e \<and> appengineFlex w"
  then show "applicationDefaultCredentials P w ctx s
          = (EvGetenv envVar # fst (wellKnownFile w) @ t2
               @ (if OnGCE w then [EvTokenFuncCheck, EvOnGCE, EvProjectID]
                  else [EvTokenFuncCheck, EvOnGCE]),
             if OnGCE w
             then Returns (Some \<lparr>ProjectID = fst (metadataProjectID w),
                                  TokenSource = ComputeTokenSource P [], JSON = []\<rparr>) None
             else Returns None (Some (ErrorString
                    (''google: could not find default credentials. See '' @ url
                       @ '' for more information.''))))"
    by (cases "wellKnownFile w") (simp add: applicationDefaultCredentials_def)
next
  assume h: "Getenv w envVar = []
        \<and> readCredentialsFile P w ctx (snd (wellKnownFile w)) s = (t2, c, Some e)
        \<and> IsNotExist e \<and> appengineTokenFunc w \<noteq> None \<and> \<not> appengineFlex w"
  have wk: "EvOnGCE \<notin> set (fst (wellKnownFile w))"
    using wellKnownFile_trace [of w] by auto
  from h have t2: "t2 = [EvReadFile (snd (wellKnownFile w))]"
    using readCredentialsFile_trace [of P w ctx "snd (wellKnownFile w)" s] by simp
  from h wk t2 show "EvAppIDFunc \<in> set (fst (applicationDefaultCredentials P w ctx s))"
    "EvOnGCE \<notin> set (fst (applicationDefaultCredentials P w ctx s))"
    by (cases "wellKnownFile w";
        auto simp: applicationDefaultCredentials_def split: option.splits)+
qed


theorem managed_runtime_gate_witness:
  "(Getenv flex_world envVar = []
     \<and> readCredentialsFile example_deps flex_world \<lparr>cancelled = False\<rparr>
          (snd (wellKnownFile flex_world)) example_settings
        = ([EvReadFile well_known], None, Some (PathError ''open'' well_known ENOENT))
     \<and> IsNotExist (PathError ''open'' well_known ENOENT)
     \<and> appengineTokenFunc flex_world \<noteq> None \<and> appengineFlex flex_world
     \<and> applicationDefaultCredentials example_deps flex_world \<lparr>cancelled = False\<rparr>
          example_settings
        = ([EvGetenv envVar, EvGetenv ''HOME'', EvReadFile well_known,
            EvTokenFuncCheck, EvOnGCE, EvProjectID],
           Returns (Some \<lparr>ProjectID = ''p-gce'', TokenSource = ''compute '', JSON = []\<rparr>)
             None))
   \<and> (Getenv appengine_world envVar = []
     \<and> readCredentialsFile example_deps appengine_world \<lparr>cancelled = False\<rparr>
          (snd (wellKnownFile appengine_world)) example_settings
        = ([EvReadFile well_known], None, Some (PathError ''open'' well_known ENOENT))
     \<and> EvAppIDFunc \<in> set (fst (applicationDefaultCredentials example_deps appengine_world
                                 \<lparr>cancelled = False\<rparr> example_settings))
     \<and> EvOnGCE \<notin> set (fst (applicationDefaultCredentials example_deps appengine_world
                               \<lparr>cancelled = False\<rparr> example_settings))
     \<and> appengineTokenFunc appengine_world \<noteq> None \<and> \<not> appengineFlex appengine_world)"
proof -
  have flex_read: "readCredentialsFile example_deps flex_world \<lparr>cancelled = False\<rparr>
          (snd (wellKnownFile flex_world)) example_settings
        = ([EvReadFile well_known], None, Some (PathError ''open'' well_known ENOENT))"
    by (simp add: world_well_known world_read)
  have ae_read: "readCredentialsFile example_deps appengine_world \<lparr>cancelled = False\<rparr>
          (snd (wellKnownFile appengine_world)) example_settings
        = ([EvReadFile well_known], None, Some (PathError ''open'' well_known ENOENT))"
    by (simp add: appengine_world_facts appengine_world_read)
  have absent: "IsNotExist (PathError ''open'' well_known ENOENT)"
    by simp
  have flex_hooks: "appengineTokenFunc flex_world \<noteq> None" "appengineFlex flex_world"
    by (simp_all add: flex_world_platform)
  have ae_hooks: "appengineTokenFunc appengine_world \<noteq> None" "\<not> appengineFlex appengine_world"
    by (simp_all add: appengine_world_platform)
  note flex = managed_runtime_gate
    [of example_deps flex_world "\<lparr>cancelled = False\<rparr>" example_settings
        "[EvReadFile well_known]" None "PathError ''open'' well_known ENOENT"]
  note ae = managed_runtime_gate
    [of example_deps appengine_world "\<lparr>cancelled = False\<rparr>" example_settings
        "[EvReadFile well_known]" None "PathError ''open'' well_known ENOENT"]
  from flex flex_read absent flex_hooks world_env_unset(5)
  have "applicationDefaultCredentials example_deps flex_world \<lparr>cancelled = False\<rparr>
          example_settings
        = (EvGetenv envVar # fst (wellKnownFile flex_world) @ [EvReadFile well_known]
               @ (if OnGCE flex_world then [EvTokenFuncCheck, EvOnGCE, EvProjectID]
                  else [EvTokenFuncCheck, EvOnGCE]),
             if OnGCE flex_world
             then Returns (Some \<lparr>ProjectID = fst (metadataProjectID flex_world),
                                  TokenSource = ComputeTokenSource example_deps [],
                                  JSON = []\<rparr>) None
             else Returns None (Some (ErrorString
                    (''google: could not find default credentials. See '' @ url
                       @ '' for more information.''))))"
    by blast
  then have flex_run: "applicationDefaultCredentials example_deps flex_world
          \<lparr>cancelled = False\<rparr> example_settings
        = ([EvGetenv envVar, EvGetenv ''HOME'', EvReadFile well_known,
            EvTokenFuncCheck, EvOnGCE, EvProjectID],
           Returns (Some \<lparr>ProjectID = ''p-gce'', TokenSource = ''compute '', JSON = []\<rparr>)
             None)"
    by (simp add: world_well_known flex_world_platform example_deps_def)
  from ae ae_read absent ae_hooks appengine_world_facts(1)
  have ae_run: "EvAppIDFunc \<in> set (fst (applicationDefaultCredentials example_deps
                    appengine_world \<lparr>cancelled = False\<rparr> example_settings))"
     "EvOnGCE \<notin> set (fst (applicationDefaultCredentials example_deps
                    appengine_world \<lparr>cancelled = False\<rparr> example_settings))"
    by blast+
  show ?thesis
    using world_env_unset(5) flex_read absent flex_hooks flex_run
      appengine_world_facts(1) ae_read ae_run ae_hooks
    by blast
qed

end
